theory Spec2Isabelle
  imports Complex_Main
begin

section \<open>FRETBursts: alternation-period classification and burst selection\<close>

text \<open>
  A shallow embedding of \<^verbatim>\<open>loaders.py\<close> (the usALEX part) and of the burst
  selectors of \<^verbatim>\<open>select_bursts.py\<close>.

  Conventions of the embedding.
  \<^item> A one-dimensional numpy array is a list. Integer arrays (photon timestamps, detector
    labels, burst boundaries, period-bin indices) hold \<open>int\<close>; the 64-bit width of the
    numpy integers is not modelled.
  \<^item> Floating-point quantities (corrected photon counts, rates, thresholds, the clock
    period) are modelled as \<open>real\<close>: rounding, infinities and NaN are abstracted away.
  \<^item> A boolean array is a \<open>bool list\<close>; numpy's \<^verbatim>\<open>+\<close> and \<^verbatim>\<open>*\<close> on boolean arrays are
    the elementwise disjunction and conjunction.
  \<^item> Every Python exception is a value of type \<open>error\<close>; a function that can raise
    returns \<open>error + 'a\<close>, with \<open>Inl\<close> for the exception.
\<close>

subsection \<open>Exceptions\<close>

text \<open>
  The \<^verbatim>\<open>assert\<close> statements of \<^verbatim>\<open>usalex_apply_period\<close>, named by what they check:
  lines 108, 109, 118, 129, 130, 131 and 136 of \<^verbatim>\<open>loaders.py\<close>.
\<close>

datatype assertion =
    EmissionNotExhaustive
  | EmissionNotExclusive
  | ExcitationOverlap
  | EmissionCountMismatch
  | EmissionOverlapAfterMask
  | OutputSizeMismatch
  | AddedSizeMismatch

datatype error =
    AssertionError assertion
  | IndexError
  | ValueError
  | TypeError
  | AttributeError
  | ZeroDivisionError

definition bindE :: "error + 'a \<Rightarrow> ('a \<Rightarrow> error + 'b) \<Rightarrow> error + 'b" where
  "bindE m f = (case m of Inl e \<Rightarrow> Inl e | Inr x \<Rightarrow> f x)"

subsection \<open>The period classifier (\<^verbatim>\<open>loaders.py\<close>, lines 49--57)\<close>

text \<open>
  \<^verbatim>\<open>times % period\<close> on an integer array: the remainder has the sign of the divisor,
  as \<open>mod\<close> on \<open>int\<close>; for a zero divisor numpy warns and yields 0.
\<close>

definition np_mod :: "int \<Rightarrow> int \<Rightarrow> int" where
  "np_mod t period = (if period = 0 then 0 else t mod period)"

definition select_outer_range :: "int list \<Rightarrow> int \<Rightarrow> int \<times> int \<Rightarrow> bool list" where
  "select_outer_range tms period edges =
     map (\<lambda>t. np_mod t period > fst edges \<or> np_mod t period < snd edges) tms"

definition select_inner_range :: "int list \<Rightarrow> int \<Rightarrow> int \<times> int \<Rightarrow> bool list" where
  "select_inner_range tms period edges =
     map (\<lambda>t. np_mod t period > fst edges \<and> np_mod t period < snd edges) tms"

definition select_range :: "int list \<Rightarrow> int \<Rightarrow> int \<times> int \<Rightarrow> bool list" where
  "select_range tms period edges =
     (if fst edges < snd edges then select_inner_range tms period edges
      else select_outer_range tms period edges)"


subsection \<open>Applying the alternation period (\<^verbatim>\<open>loaders.py\<close>, lines 87--141)\<close>

text \<open>
  The attributes of the \<^verbatim>\<open>Data\<close> object that \<^verbatim>\<open>usalex_apply_period\<close> reads and writes.
  \<^verbatim>\<open>Data\<close> is a bag of dynamically set attributes: an attribute that the function sets
  with \<^verbatim>\<open>d.add\<close> or removes with \<^verbatim>\<open>d.delete\<close> is an \<open>option\<close>, \<open>None\<close> while it is
  absent, and reading an absent attribute raises \<^verbatim>\<open>AttributeError\<close>. The attributes set by
  \<^verbatim>\<open>d.add\<close> are lists with one array per channel.
\<close>

record usalex_data =
  det_donor_accept :: "int \<times> int"
  det_t :: "int list option"
  ph_times_t :: "int list option"
  alex_period :: int
  D_ON :: "int \<times> int"
  A_ON :: "int \<times> int"
  ph_times_m :: "int list list option"
  D_em :: "bool list list option"
  A_em :: "bool list list option"
  D_ex :: "bool list list option"
  A_ex :: "bool list list option"

definition attr :: "'a option \<Rightarrow> error + 'a" where
  "attr a = (case a of None \<Rightarrow> Inl AttributeError | Some v \<Rightarrow> Inr v)"

definition py_assert :: "bool \<Rightarrow> assertion \<Rightarrow> error + unit" where
  "py_assert b a = (if b then Inr () else Inl (AssertionError a))"

text \<open>
  \<^verbatim>\<open>xs[mask]\<close> with a boolean array: the entries of \<open>xs\<close> where the mask is true, in order;
  a mask of another length is an \<^verbatim>\<open>IndexError\<close>.
\<close>

definition np_mask_index :: "'a list \<Rightarrow> bool list \<Rightarrow> error + 'a list" where
  "np_mask_index xs msk =
     (if length msk = length xs then Inr (map fst (filter snd (zip xs msk)))
      else Inl IndexError)"

text \<open>\<^verbatim>\<open>m.sum()\<close>, \<^verbatim>\<open>m.all()\<close> and \<^verbatim>\<open>m.any()\<close> of a boolean array.\<close>

definition np_sum :: "bool list \<Rightarrow> nat" where
  "np_sum m = length (filter id m)"

definition np_all :: "bool list \<Rightarrow> bool" where
  "np_all m = list_all id m"

definition np_any :: "bool list \<Rightarrow> bool" where
  "np_any m = list_ex id m"

text \<open>
  Lines 100--107: the photons of the donor and of the acceptor detector, with their two
  emission masks. The operands of each \<^verbatim>\<open>+\<close> and \<^verbatim>\<open>*\<close> of the function are masks of one
  length by construction, so \<open>map2\<close> is the elementwise operation.
\<close>

definition det_filter :: "usalex_data \<Rightarrow> error + (int list \<times> bool list \<times> bool list)" where
  "det_filter d =
     (let (donor_ch, accept_ch) = det_donor_accept d in
      bindE (attr (det_t d)) (\<lambda>det.
      let d_ch_mask_t = map (\<lambda>c. c = donor_ch) det;
          a_ch_mask_t = map (\<lambda>c. c = accept_ch) det;
          valid_mask = map2 (\<or>) d_ch_mask_t a_ch_mask_t in
      bindE (attr (ph_times_t d)) (\<lambda>pt.
      bindE (np_mask_index pt valid_mask) (\<lambda>ph_times_val.
      bindE (np_mask_index d_ch_mask_t valid_mask) (\<lambda>d_ch_mask_val.
      bindE (np_mask_index a_ch_mask_t valid_mask) (\<lambda>a_ch_mask_val.
        Inr (ph_times_val, d_ch_mask_val, a_ch_mask_val)))))))"

text \<open>
  Lines 108--141. \<^verbatim>\<open>d.add\<close> stores each keyword argument as an attribute and
  \<^verbatim>\<open>d.delete\<close> removes one; the assertion of line 136 reads back the arrays just stored.
\<close>

definition usalex_apply_period :: "usalex_data \<Rightarrow> bool \<Rightarrow> error + usalex_data" where
  "usalex_apply_period d delete_ph_t =
     bindE (det_filter d) (\<lambda>(ph_times_val, d_ch_mask_val, a_ch_mask_val).
     bindE (py_assert (np_all (map2 (\<or>) d_ch_mask_val a_ch_mask_val))
              EmissionNotExhaustive) (\<lambda>_.
     bindE (py_assert (\<not> np_any (map2 (\<and>) d_ch_mask_val a_ch_mask_val))
              EmissionNotExclusive) (\<lambda>_.
     let d_ex_mask_val = select_range ph_times_val (alex_period d) (D_ON d);
         a_ex_mask_val = select_range ph_times_val (alex_period d) (A_ON d) in
     bindE (py_assert (\<not> np_any (map2 (\<and>) d_ex_mask_val a_ex_mask_val))
              ExcitationOverlap) (\<lambda>_.
     let mask = map2 (\<or>) d_ex_mask_val a_ex_mask_val in
     bindE (np_mask_index ph_times_val mask) (\<lambda>ph_times.
     bindE (np_mask_index d_ch_mask_val mask) (\<lambda>d_em.
     bindE (np_mask_index a_ch_mask_val mask) (\<lambda>a_em.
     bindE (np_mask_index d_ex_mask_val mask) (\<lambda>d_ex.
     bindE (np_mask_index a_ex_mask_val mask) (\<lambda>a_ex.
     bindE (py_assert (np_sum d_em + np_sum a_em = length ph_times)
              EmissionCountMismatch) (\<lambda>_.
     bindE (py_assert (np_any (map2 (\<and>) d_em a_em) = False)
              EmissionOverlapAfterMask) (\<lambda>_.
     bindE (py_assert (length a_ex = length a_em \<and> length a_em = length d_ex \<and>
                       length d_ex = length d_em \<and> length d_em = length ph_times)
              OutputSizeMismatch) (\<lambda>_.
     let d1 = d\<lparr>ph_times_m := Some [ph_times], D_em := Some [d_em], A_em := Some [a_em],
                 D_ex := Some [d_ex], A_ex := Some [a_ex]\<rparr> in
     bindE (py_assert (length ph_times = length a_em) AddedSizeMismatch) (\<lambda>_.
     Inr (if delete_ph_t then d1\<lparr>ph_times_t := None, det_t := None\<rparr> else d1))))))))))))))"


subsection \<open>Array operations used by the burst selectors\<close>

text \<open>
  \<^verbatim>\<open>xs[i]\<close> with an integer: a negative index counts from the end, an index outside the
  sequence raises \<^verbatim>\<open>IndexError\<close>. \<open>np_take\<close> is \<^verbatim>\<open>xs[idx]\<close> with an integer array.
\<close>

definition py_get :: "'a list \<Rightarrow> int \<Rightarrow> error + 'a" where
  "py_get xs i =
     (if 0 \<le> i \<and> i < int (length xs) then Inr (xs ! nat i)
      else if i < 0 \<and> - int (length xs) \<le> i then Inr (xs ! nat (int (length xs) + i))
      else Inl IndexError)"


text \<open>
  An elementwise binary operation on two one-dimensional arrays, with numpy's
  broadcasting: equal lengths, or one operand of length 1; any other pair of shapes
  raises \<^verbatim>\<open>ValueError\<close>. \<open>np_iadd\<close> is \<^verbatim>\<open>xs += ys\<close>, whose result keeps the shape of \<open>xs\<close>.
\<close>

definition np_binop :: "('a \<Rightarrow> 'b \<Rightarrow> 'c) \<Rightarrow> 'a list \<Rightarrow> 'b list \<Rightarrow> error + 'c list" where
  "np_binop f xs ys =
     (if length xs = length ys then Inr (map2 f xs ys)
      else if length xs = 1 then Inr (map (f (hd xs)) ys)
      else if length ys = 1 then Inr (map (\<lambda>x. f x (hd ys)) xs)
      else Inl ValueError)"

definition np_iadd :: "real list \<Rightarrow> real list \<Rightarrow> error + real list" where
  "np_iadd xs ys =
     (if length ys = length xs then Inr (map2 (+) xs ys)
      else if length ys = 1 then Inr (map (\<lambda>x. x + hd ys) xs)
      else Inl ValueError)"

text \<open>\<^verbatim>\<open>xs.max()\<close>: the maximum of an empty array has no identity and raises.\<close>

definition np_max :: "int list \<Rightarrow> error + int" where
  "np_max xs = (if xs = [] then Inl ValueError else Inr (fold max (tl xs) (hd xs)))"

text \<open>
  \<^verbatim>\<open>xs.argsort()\<close>: the indices of \<open>xs\<close> in ascending order of their values. numpy's
  default sort leaves the order of equal values open; the model takes the stable order.
  \<open>py_slice_from s xs\<close> is the slice \<^verbatim>\<open>xs[s:]\<close>.
\<close>

definition argsort :: "real list \<Rightarrow> nat list" where
  "argsort xs = sort_key (\<lambda>i. xs ! i) [0..<length xs]"

definition py_slice_from :: "int \<Rightarrow> 'a list \<Rightarrow> 'a list" where
  "py_slice_from s xs =
     (if s < 0 then drop (nat (int (length xs) + s)) xs else drop (nat s) xs)"

subsection \<open>The dataset read by the selectors\<close>

text \<open>
  Modelled from the spec: the burst array \<^verbatim>\<open>mburst[ich]\<close> and its accessors \<^verbatim>\<open>b_start\<close>,
  \<^verbatim>\<open>b_width\<close> and \<^verbatim>\<open>b_end\<close> of \<^verbatim>\<open>burstsearch.burstsearchlib\<close>, which is not among the
  sources. A burst carries its start, width and end in clock ticks, and each accessor
  returns that column for all bursts of the channel.
\<close>

record burst =
  t_start :: int
  t_width :: int
  t_end :: int

definition b_start :: "burst list \<Rightarrow> int list" where
  "b_start mb = map t_start mb"


definition b_end :: "burst list \<Rightarrow> int list" where
  "b_end mb = map t_end mb"

text \<open>
  The attributes of \<^verbatim>\<open>Data\<close> read by the selectors modelled below. Each burst-level
  attribute is a list with one array per channel.
\<close>

record dataset =
  nch :: nat
  ALEX :: bool
  clk_p :: real
  nd :: "real list list"
  na :: "real list list"
  naa :: "real list list"
  nt :: "real list list"
  bp :: "int list list"
  bg :: "real list list"
  bg_dd :: "real list list"
  bg_ad :: "real list list"
  bg_aa :: "real list list"
  mburst :: "burst list list"

subsection \<open>Selection on the period (\<^verbatim>\<open>select_bursts.py\<close>, lines 62--66)\<close>

definition period :: "dataset \<Rightarrow> int \<Rightarrow> int \<Rightarrow> int option \<Rightarrow> error + (bool list \<times> string)" where
  "period d ich bp1 bp2 =
     bindE (case bp2 of None \<Rightarrow> bindE (py_get (bp d) ich) np_max | Some v \<Rightarrow> Inr v) (\<lambda>bp2.
     bindE (py_get (bp d) ich) (\<lambda>b.
     bindE (np_binop (\<and>) (map (\<lambda>x. x \<ge> bp1) b) (map (\<lambda>x. x \<le> bp2) b)) (\<lambda>burst_mask.
     Inr (burst_mask, []))))"

subsection \<open>Selection on the burst size (\<^verbatim>\<open>select_bursts.py\<close>, lines 90--136)\<close>

text \<open>
  Lines 98--101, repeated in lines 116--119 and 129--132: the burst size with the
  \<^verbatim>\<open>gamma\<close> or the \<^verbatim>\<open>gamma1\<close> correction. For \<^verbatim>\<open>gamma = 0\<close> numpy yields \<^verbatim>\<open>inf\<close> or
  \<^verbatim>\<open>nan\<close>, which \<open>real\<close> does not have; no property below depends on the value there.
\<close>

definition burst_size :: "dataset \<Rightarrow> int \<Rightarrow> real \<Rightarrow> real option \<Rightarrow> error + real list" where
  "burst_size d ich gamma gamma1 =
     (case gamma1 of
        Some g1 \<Rightarrow>
          bindE (py_get (nd d) ich) (\<lambda>n.
          bindE (py_get (na d) ich) (\<lambda>a.
            np_binop (+) (map (\<lambda>x. 1 * x * g1) n) a))
      | None \<Rightarrow>
          bindE (py_get (nd d) ich) (\<lambda>n.
          bindE (py_get (na d) ich) (\<lambda>a.
            np_binop (+) n (map (\<lambda>x. 1 * x / gamma) a))))"

text \<open>
  A threshold of \<^verbatim>\<open>nda\<close> is a number or an array with one number per channel;
  \<^verbatim>\<open>np.size\<close> of a number is 1. Lines 104--105 replace an array of \<^verbatim>\<open>nch\<close> thresholds by
  its entry for the channel. A threshold that is still an array is broadcast in the
  comparison of line 106; building the label then needs one number: \<^verbatim>\<open>"%d" % th1\<close> raises
  \<^verbatim>\<open>TypeError\<close> and \<^verbatim>\<open>if th2 < 1000\<close> raises \<^verbatim>\<open>ValueError\<close> on an array of another size.
  The label itself is not modelled: \<open>nda\<close> and \<open>topN_nda\<close> return the mask.
\<close>

datatype threshold = Scalar real | PerChannel "real list"

fun np_size :: "threshold \<Rightarrow> nat" where
  "np_size (Scalar v) = 1"
| "np_size (PerChannel vs) = length vs"

fun th_values :: "threshold \<Rightarrow> real list" where
  "th_values (Scalar v) = [v]"
| "th_values (PerChannel vs) = vs"

definition resolve_th :: "nat \<Rightarrow> int \<Rightarrow> threshold \<Rightarrow> error + threshold" where
  "resolve_th n ich th =
     (if n > 1 \<and> np_size th = n
      then bindE (py_get (th_values th) ich) (\<lambda>v. Inr (Scalar v))
      else Inr th)"

definition nda :: "dataset \<Rightarrow> int \<Rightarrow> threshold \<Rightarrow> threshold \<Rightarrow> real \<Rightarrow> real option \<Rightarrow> bool
    \<Rightarrow> error + bool list" where
  "nda d ich th1 th2 gamma gamma1 add_naa =
     bindE (burst_size d ich gamma gamma1) (\<lambda>bs.
     bindE (if ALEX d \<and> add_naa then bindE (py_get (naa d) ich) (np_iadd bs) else Inr bs) (\<lambda>bs.
     bindE (resolve_th (nch d) ich th1) (\<lambda>th1.
     bindE (resolve_th (nch d) ich th2) (\<lambda>th2.
     bindE (np_binop (\<ge>) bs (th_values th1)) (\<lambda>m1.
     bindE (np_binop (\<le>) bs (th_values th2)) (\<lambda>m2.
     bindE (np_binop (\<and>) m1 m2) (\<lambda>bursts_mask.
     if np_size th1 \<noteq> 1 then Inl TypeError
     else if np_size th2 \<noteq> 1 then Inl ValueError
     else Inr bursts_mask)))))))"

definition topN_nda :: "dataset \<Rightarrow> int \<Rightarrow> int \<Rightarrow> real \<Rightarrow> real option \<Rightarrow> error + bool list" where
  "topN_nda d ich N gamma gamma1 =
     bindE (burst_size d ich gamma gamma1) (\<lambda>bs.
     let index_sorted = argsort bs;
         burst_mask = replicate (length bs) False
     in Inr (fold (\<lambda>i m. m[i := True]) (py_slice_from (- N) index_sorted) burst_mask))"

subsection \<open>Selection of isolated bursts (\<^verbatim>\<open>select_bursts.py\<close>, lines 154--161)\<close>

text \<open>
  \<^verbatim>\<open>th*1e-3/d.clk_p\<close> divides Python floats, so a zero clock period raises
  \<^verbatim>\<open>ZeroDivisionError\<close>. \<^verbatim>\<open>burst_start[1:]\<close> and \<^verbatim>\<open>burst_end[:-1]\<close> have one length.
\<close>

definition single :: "dataset \<Rightarrow> int \<Rightarrow> real \<Rightarrow> error + bool list" where
  "single d ich th =
     (if clk_p d = 0 then Inl ZeroDivisionError
      else
        let th = th * (1 / 1000) / clk_p d in
        bindE (py_get (mburst d) ich) (\<lambda>mb.
        let burst_start = b_start mb;
            burst_end = b_end mb;
            gap_mask = map2 (\<lambda>s e. real_of_int (s - e) \<ge> th) (tl burst_start) (butlast burst_end)
        in Inr (map2 (\<and>) (gap_mask @ [False]) (False # gap_mask))))"

subsection \<open>Selection on the burst size against the background
  (\<^verbatim>\<open>select_bursts.py\<close>, lines 185--207)\<close>






text \<open>
  Two notions used to state the properties of \<^verbatim>\<open>usalex_apply_period\<close>: the membership
  test that \<open>select_range\<close> applies to one timestamp, and the photons that survive the
  detector filter of lines 102--105, as pairs of a timestamp and a detector label.
\<close>

definition in_window :: "int \<Rightarrow> int \<times> int \<Rightarrow> int \<Rightarrow> bool" where
  "in_window prd edges t =
     (if fst edges < snd edges
      then np_mod t prd > fst edges \<and> np_mod t prd < snd edges
      else np_mod t prd > fst edges \<or> np_mod t prd < snd edges)"

definition surviving :: "int \<times> int \<Rightarrow> int list \<Rightarrow> int list \<Rightarrow> (int \<times> int) list" where
  "surviving dda pt det = filter (\<lambda>(t, c). c = fst dda \<or> c = snd dda) (zip pt det)"

text \<open>
  Example acquisitions. \<open>alex_example\<close> has the windows of \<^verbatim>\<open>load_usalex\<close>, a photon on
  a third detector and a photon in neither window. \<open>alex_same_det\<close> configures one
  detector id for both channels; \<open>alex_same_det_overlap\<close> also has overlapping windows.
\<close>

definition alex_example :: usalex_data where
  "alex_example = \<lparr>det_donor_accept = (0, 1), det_t = Some [0, 1, 2, 1, 0],
     ph_times_t = Some [3000, 1000, 3100, 700, 4100], alex_period = 4000,
     D_ON = (2850, 580), A_ON = (930, 2580), ph_times_m = None,
     D_em = None, A_em = None, D_ex = None, A_ex = None\<rparr>"

definition alex_same_det :: usalex_data where
  "alex_same_det = \<lparr>det_donor_accept = (0, 0), det_t = Some [0],
     ph_times_t = Some [700], alex_period = 4000,
     D_ON = (2850, 580), A_ON = (930, 2580), ph_times_m = None,
     D_em = None, A_em = None, D_ex = None, A_ex = None\<rparr>"

definition alex_same_det_overlap :: usalex_data where
  "alex_same_det_overlap = \<lparr>det_donor_accept = (0, 0), det_t = Some [0],
     ph_times_t = Some [3000], alex_period = 4000,
     D_ON = (2850, 580), A_ON = (2900, 3100), ph_times_m = None,
     D_em = None, A_em = None, D_ex = None, A_ex = None\<rparr>"

definition alex_example_out :: usalex_data where
  "alex_example_out = \<lparr>det_donor_accept = (0, 1), det_t = None,
     ph_times_t = None, alex_period = 4000,
     D_ON = (2850, 580), A_ON = (930, 2580), ph_times_m = Some [[3000, 1000, 4100]],
     D_em = Some [[True, False, True]], A_em = Some [[False, True, False]],
     D_ex = Some [[True, False, True]], A_ex = Some [[False, True, False]]\<rparr>"

text \<open>
  A dataset with one channel and no burst, and a dataset with one channel of three
  adjoining bursts whose numbers are exact in binary floating point.
\<close>

definition empty_channel :: dataset where
  "empty_channel = \<lparr>nch = 1, ALEX = False, clk_p = 1 / 80000000, nd = [[]], na = [[]],
     naa = [[]], nt = [[]], bp = [[]], bg = [[]], bg_dd = [[]], bg_ad = [[]], bg_aa = [[]],
     mburst = [[]]\<rparr>"

definition bursts_example :: dataset where
  "bursts_example = \<lparr>nch = 1, ALEX = False, clk_p = 1 / 1024,
     nd = [[0, 10, 3]], na = [[0, 10, 5]], naa = [[0, 10, 1]], nt = [[0, 10, 3]],
     bp = [[0, 1, 1]], bg = [[0, 512]], bg_dd = [[0, 512]], bg_ad = [[0, 512]],
     bg_aa = [[0, 512]],
     mburst = [[\<lparr>t_start = 0, t_width = 4, t_end = 4\<rparr>, \<lparr>t_start = 4, t_width = 4, t_end = 8\<rparr>,
                \<lparr>t_start = 8, t_width = 4, t_end = 12\<rparr>]]\<rparr>"



section \<open>Properties\<close>

subsection \<open>The period classifier\<close>

lemma length_select_range: "length (select_range tms prd edges) = length tms"
  by (simp add: select_range_def select_inner_range_def select_outer_range_def)

lemma nth_select_range:
  assumes "i < length tms"
  shows "select_range tms prd edges ! i \<longleftrightarrow>
           (if fst edges < snd edges
            then np_mod (tms ! i) prd > fst edges \<and> np_mod (tms ! i) prd < snd edges
            else np_mod (tms ! i) prd > fst edges \<or> np_mod (tms ! i) prd < snd edges)"
  using assms by (simp add: select_range_def select_inner_range_def select_outer_range_def)

text \<open>
  Claim C1. For an integer timestamp array, a period \<open>> 0\<close> and a window \<open>(e0, e1)\<close>, the
  mask has the length of the input, and with \<open>r = t mod period\<close> the entry at index \<open>i\<close>
  is true iff \<open>e0 < e1\<close> and \<open>e0 < r < e1\<close>, or \<open>e0 \<ge> e1\<close> and (\<open>r > e0\<close> or \<open>r < e1\<close>).
  The comparisons are strict: \<open>r = e0\<close> and \<open>r = e1\<close> give false in both branches.
\<close>

theorem select_range_semantics:
  assumes "0 < prd"
  shows "length (select_range tms prd (e0, e1)) = length tms \<and>
         (\<forall>i < length tms.
            (select_range tms prd (e0, e1) ! i \<longleftrightarrow>
               (e0 < e1 \<and> e0 < tms ! i mod prd \<and> tms ! i mod prd < e1) \<or>
               (e0 \<ge> e1 \<and> (tms ! i mod prd > e0 \<or> tms ! i mod prd < e1))) \<and>
            ((tms ! i mod prd = e0 \<or> tms ! i mod prd = e1) \<longrightarrow>
               \<not> select_range tms prd (e0, e1) ! i))"
proof -
  have m: "np_mod t prd = t mod prd" for t
    using assms by (simp add: np_mod_def)
  show ?thesis
    by (auto simp: length_select_range nth_select_range m)
qed

theorem select_range_semantics_witness:
  "(0::int) < 4000 \<and>
   select_range [3000, 1000, 700, 2850, 580, 4930, 6580] 4000 (2850, 580)
     = [True, False, False, False, False, False, False] \<and>
   select_range [3000, 1000, 700, 2850, 580, 4930, 6580] 4000 (930, 2580)
     = [False, True, False, False, False, False, False]"
proof -
  have p: "(0::int) < 4000" by simp
  have a: "select_range [3000, 1000, 700, 2850, 580, 4930, 6580] 4000 (2850, 580)
     = [True, False, False, False, False, False, False]"
    using select_range_semantics [OF p, of "[3000, 1000, 700, 2850, 580, 4930, 6580]" 2850 580]
    by (simp add: select_range_def select_outer_range_def np_mod_def)
  have b: "select_range [3000, 1000, 700, 2850, 580, 4930, 6580] 4000 (930, 2580)
     = [False, True, False, False, False, False, False]"
    by (simp add: select_range_def select_inner_range_def np_mod_def)
  from p a b show ?thesis by simp
qed

subsection \<open>Applying the alternation period\<close>

lemma bindE_simps [simp]: "bindE (Inl e) f = Inl e" "bindE (Inr x) f = f x"
  by (simp_all add: bindE_def)

lemma select_range_map: "select_range tms prd edges = map (in_window prd edges) tms"
  by (simp add: select_range_def select_inner_range_def select_outer_range_def in_window_def)

lemma np_mask_index_map: "np_mask_index (map f zs) (map g zs) = Inr (map f (filter g zs))"
  by (induction zs) (auto simp: np_mask_index_def)

lemma np_sum_map: "np_sum (map f xs) = length (filter f xs)"
  by (induction xs) (auto simp: np_sum_def)

lemma np_any_map: "np_any (map f xs) \<longleftrightarrow> (\<exists>x\<in>set xs. f x)"
  by (simp add: np_any_def list_ex_iff)

lemma np_all_map: "np_all (map f xs) \<longleftrightarrow> (\<forall>x\<in>set xs. f x)"
  by (simp add: np_all_def list_all_iff)

lemma partition_count:
  "\<forall>x\<in>set xs. f x \<noteq> g x \<Longrightarrow> length (filter f xs) + length (filter g xs) = length xs"
  by (induction xs) auto

lemma det_filter_eq:
  assumes "det_t d = Some det" "ph_times_t d = Some pt" "length pt = length det"
  shows "det_filter d =
    Inr (map fst (surviving (det_donor_accept d) pt det),
         map (\<lambda>(t, c). c = fst (det_donor_accept d)) (surviving (det_donor_accept d) pt det),
         map (\<lambda>(t, c). c = snd (det_donor_accept d)) (surviving (det_donor_accept d) pt det))"
proof -
  define zs where "zs = zip pt det"
  have pt: "pt = map fst zs" and det: "det = map snd zs"
    using assms(3) by (simp_all add: zs_def)
  obtain dn ac where dda: "det_donor_accept d = (dn, ac)" by (cases "det_donor_accept d")
  have sv: "surviving (dn, ac) pt det = filter (\<lambda>z. snd z = dn \<or> snd z = ac) zs"
    by (simp add: surviving_def zs_def case_prod_unfold)
  define f where "f = (\<lambda>z::int \<times> int. snd z = dn)"
  define g where "g = (\<lambda>z::int \<times> int. snd z = ac)"
  have m1: "map (\<lambda>c. c = dn) det = map f zs" and m2: "map (\<lambda>c. c = ac) det = map g zs"
    by (simp_all add: det f_def g_def)
  have vm: "map2 (\<or>) (map f zs) (map g zs) = map (\<lambda>z. f z \<or> g z) zs"
    by (rule map2_map_map)
  have sv': "surviving (dn, ac) pt det = filter (\<lambda>z. f z \<or> g z) zs"
    by (simp add: sv f_def g_def)
  have "det_filter d =
      bindE (np_mask_index (map fst zs) (map (\<lambda>z. f z \<or> g z) zs)) (\<lambda>ph_times_val.
      bindE (np_mask_index (map f zs) (map (\<lambda>z. f z \<or> g z) zs)) (\<lambda>d_ch_mask_val.
      bindE (np_mask_index (map g zs) (map (\<lambda>z. f z \<or> g z) zs)) (\<lambda>a_ch_mask_val.
        Inr (ph_times_val, d_ch_mask_val, a_ch_mask_val))))"
    unfolding det_filter_def dda
    by (simp only: assms(1,2) attr_def option.case bindE_simps Let_def prod.case m1 m2 vm)
       (simp only: pt)
  also have "\<dots> = Inr (map fst (filter (\<lambda>z. f z \<or> g z) zs),
         map f (filter (\<lambda>z. f z \<or> g z) zs), map g (filter (\<lambda>z. f z \<or> g z) zs))"
    by (simp only: np_mask_index_map bindE_simps)
  finally show ?thesis
    by (simp add: dda sv' f_def g_def case_prod_unfold)
qed


lemma usalex_tail:
  fixes vp :: "(int \<times> int) list"
  assumes ex: "\<forall>z\<in>set vp. f z \<or> g z"
  shows "bindE (Inr (map fst vp, map f vp, map g vp))
     (\<lambda>(ph_times_val, d_ch_mask_val, a_ch_mask_val).
     bindE (py_assert (np_all (map2 (\<or>) d_ch_mask_val a_ch_mask_val))
              EmissionNotExhaustive) (\<lambda>_.
     bindE (py_assert (\<not> np_any (map2 (\<and>) d_ch_mask_val a_ch_mask_val))
              EmissionNotExclusive) (\<lambda>_.
     let d_ex_mask_val = select_range ph_times_val (alex_period d) (D_ON d);
         a_ex_mask_val = select_range ph_times_val (alex_period d) (A_ON d) in
     bindE (py_assert (\<not> np_any (map2 (\<and>) d_ex_mask_val a_ex_mask_val))
              ExcitationOverlap) (\<lambda>_.
     let mask = map2 (\<or>) d_ex_mask_val a_ex_mask_val in
     bindE (np_mask_index ph_times_val mask) (\<lambda>ph_times.
     bindE (np_mask_index d_ch_mask_val mask) (\<lambda>d_em.
     bindE (np_mask_index a_ch_mask_val mask) (\<lambda>a_em.
     bindE (np_mask_index d_ex_mask_val mask) (\<lambda>d_ex.
     bindE (np_mask_index a_ex_mask_val mask) (\<lambda>a_ex.
     bindE (py_assert (np_sum d_em + np_sum a_em = length ph_times)
              EmissionCountMismatch) (\<lambda>_.
     bindE (py_assert (np_any (map2 (\<and>) d_em a_em) = False)
              EmissionOverlapAfterMask) (\<lambda>_.
     bindE (py_assert (length a_ex = length a_em \<and> length a_em = length d_ex \<and>
                       length d_ex = length d_em \<and> length d_em = length ph_times)
              OutputSizeMismatch) (\<lambda>_.
     let d1 = d\<lparr>ph_times_m := Some [ph_times], D_em := Some [d_em], A_em := Some [a_em],
                 D_ex := Some [d_ex], A_ex := Some [a_ex]\<rparr> in
     bindE (py_assert (length ph_times = length a_em) AddedSizeMismatch) (\<lambda>_.
     Inr (if delete_ph_t then d1\<lparr>ph_times_t := None, det_t := None\<rparr> else d1)))))))))))))) =
   (if \<exists>z\<in>set vp. f z \<and> g z then Inl (AssertionError EmissionNotExclusive)
    else if \<exists>z\<in>set vp. in_window (alex_period d) (D_ON d) (fst z) \<and>
                          in_window (alex_period d) (A_ON d) (fst z)
    then Inl (AssertionError ExcitationOverlap)
    else let kept = filter (\<lambda>z. in_window (alex_period d) (D_ON d) (fst z) \<or>
                                 in_window (alex_period d) (A_ON d) (fst z)) vp;
             d1 = d\<lparr>ph_times_m := Some [map fst kept], D_em := Some [map f kept],
                     A_em := Some [map g kept],
                     D_ex := Some [map (\<lambda>z. in_window (alex_period d) (D_ON d) (fst z)) kept],
                     A_ex := Some [map (\<lambda>z. in_window (alex_period d) (A_ON d) (fst z)) kept]\<rparr>
         in Inr (if delete_ph_t then d1\<lparr>ph_times_t := None, det_t := None\<rparr> else d1))"
proof -
  define wD where "wD = (\<lambda>z::int \<times> int. in_window (alex_period d) (D_ON d) (fst z))"
  define wA where "wA = (\<lambda>z::int \<times> int. in_window (alex_period d) (A_ON d) (fst z))"
  define kept where "kept = filter (\<lambda>z. wD z \<or> wA z) vp"
  have fD: "in_window (alex_period d) (D_ON d) (fst z) = wD z"
    and fA: "in_window (alex_period d) (A_ON d) (fst z) = wA z" for z
    by (simp_all add: wD_def wA_def)
  have sD: "select_range (map fst vp) (alex_period d) (D_ON d) = map wD vp"
    and sA: "select_range (map fst vp) (alex_period d) (A_ON d) = map wA vp"
    by (simp_all add: select_range_map wD_def wA_def)
  have a1: "np_all (map2 (\<or>) (map f vp) (map g vp))"
    using ex by (simp add: map2_map_map np_all_map)
  have a2: "np_any (map2 (\<and>) (map f vp) (map g vp)) \<longleftrightarrow> (\<exists>z\<in>set vp. f z \<and> g z)"
    by (simp add: map2_map_map np_any_map)
  have a3: "np_any (map2 (\<and>) (map wD vp) (map wA vp)) \<longleftrightarrow> (\<exists>z\<in>set vp. wD z \<and> wA z)"
    by (simp add: map2_map_map np_any_map)
  have mk: "map2 (\<or>) (map wD vp) (map wA vp) = map (\<lambda>z. wD z \<or> wA z) vp"
    by (rule map2_map_map)
  have idx: "np_mask_index (map h vp) (map (\<lambda>z. wD z \<or> wA z) vp) = Inr (map h kept)" for h :: "int \<times> int \<Rightarrow> 'b"
    by (simp add: np_mask_index_map kept_def)
  have a5: "np_any (map2 (\<and>) (map f kept) (map g kept)) \<longleftrightarrow> (\<exists>z\<in>set kept. f z \<and> g z)"
    by (simp add: map2_map_map np_any_map)
  have cnt: "np_sum (map f kept) + np_sum (map g kept) = length kept"
    if "\<not> (\<exists>z\<in>set vp. f z \<and> g z)"
  proof -
    have "\<forall>z\<in>set kept. f z \<noteq> g z"
      using ex that by (auto simp: kept_def)
    then show ?thesis
      by (simp add: np_sum_map partition_count)
  qed
  have k5: "\<not> (\<exists>z\<in>set kept. f z \<and> g z)" if "\<not> (\<exists>z\<in>set vp. f z \<and> g z)"
    using that by (auto simp: kept_def)
  show ?thesis
  proof (cases "\<exists>z\<in>set vp. f z \<and> g z")
    case True
    then show ?thesis
      by (simp add: a1 a2 py_assert_def)
  next
    case nf: False
    show ?thesis
    proof (cases "\<exists>z\<in>set vp. wD z \<and> wA z")
      case True
      with nf show ?thesis
        by (simp add: a1 a2 a3 sD sA py_assert_def Let_def fD fA)
    next
      case False
      with nf cnt k5 show ?thesis
        by (simp add: a1 a2 a3 sD sA mk idx a5 py_assert_def Let_def fD fA flip: kept_def)
    qed
  qed
qed

lemma usalex_apply_period_eq:
  assumes "det_t d = Some det" "ph_times_t d = Some pt" "length pt = length det"
  shows "usalex_apply_period d delete_ph_t =
   (let vp = surviving (det_donor_accept d) pt det in
    if \<exists>z\<in>set vp. snd z = fst (det_donor_accept d) \<and> snd z = snd (det_donor_accept d)
    then Inl (AssertionError EmissionNotExclusive)
    else if \<exists>z\<in>set vp. in_window (alex_period d) (D_ON d) (fst z) \<and>
                          in_window (alex_period d) (A_ON d) (fst z)
    then Inl (AssertionError ExcitationOverlap)
    else let kept = filter (\<lambda>z. in_window (alex_period d) (D_ON d) (fst z) \<or>
                                 in_window (alex_period d) (A_ON d) (fst z)) vp;
             d1 = d\<lparr>ph_times_m := Some [map fst kept],
                     D_em := Some [map (\<lambda>z. snd z = fst (det_donor_accept d)) kept],
                     A_em := Some [map (\<lambda>z. snd z = snd (det_donor_accept d)) kept],
                     D_ex := Some [map (\<lambda>z. in_window (alex_period d) (D_ON d) (fst z)) kept],
                     A_ex := Some [map (\<lambda>z. in_window (alex_period d) (A_ON d) (fst z)) kept]\<rparr>
         in Inr (if delete_ph_t then d1\<lparr>ph_times_t := None, det_t := None\<rparr> else d1))"
proof -
  define vp where "vp = surviving (det_donor_accept d) pt det"
  have ex: "\<forall>z\<in>set vp. snd z = fst (det_donor_accept d) \<or> snd z = snd (det_donor_accept d)"
    by (auto simp: vp_def surviving_def)
  have df: "det_filter d = Inr (map fst vp, map (\<lambda>z. snd z = fst (det_donor_accept d)) vp,
                                map (\<lambda>z. snd z = snd (det_donor_accept d)) vp)"
    using det_filter_eq [OF assms] by (simp add: vp_def case_prod_unfold)
  show ?thesis
    unfolding usalex_apply_period_def df
    by (subst usalex_tail [OF ex]) (simp only: Let_def vp_def)
qed

lemma det_filter_Inr:
  assumes "det_filter d = Inr r"
  shows "\<exists>det pt. det_t d = Some det \<and> ph_times_t d = Some pt \<and> length pt = length det"
  using assms
  by (auto simp: det_filter_def attr_def np_mask_index_def bindE_def Let_def
           split: prod.splits option.splits if_splits)

lemma det_filter_Inl:
  assumes "det_filter d = Inl e"
  shows "e = AttributeError \<or> e = IndexError"
  using assms
  by (auto simp: det_filter_def attr_def np_mask_index_def bindE_def Let_def
           split: prod.splits option.splits if_splits)

lemma set_surviving:
  assumes "length pt = length det"
  shows "(\<exists>z\<in>set (surviving dda pt det). P (fst z) (snd z)) \<longleftrightarrow>
         (\<exists>i<length pt. (det ! i = fst dda \<or> det ! i = snd dda) \<and> P (pt ! i) (det ! i))"
  using assms by (auto simp: surviving_def set_zip)


lemmas usalex_eval =
  usalex_apply_period_def det_filter_def attr_def py_assert_def np_mask_index_def
  np_sum_def np_all_def np_any_def select_range_def select_inner_range_def
  select_outer_range_def np_mod_def Let_def

lemma alex_example_run: "usalex_apply_period alex_example True = Inr alex_example_out"
  by (simp add: alex_example_def alex_example_out_def usalex_eval)

lemma alex_same_det_run:
  "usalex_apply_period alex_same_det True = Inl (AssertionError EmissionNotExclusive)"
  by (simp add: alex_same_det_def usalex_eval)

lemma alex_same_det_overlap_run:
  "usalex_apply_period alex_same_det_overlap True = Inl (AssertionError EmissionNotExclusive)"
  by (simp add: alex_same_det_overlap_def usalex_eval)

lemma nth_select_range_in_window:
  "i < length tms \<Longrightarrow> select_range tms prd edges ! i = in_window prd edges (tms ! i)"
  by (simp add: select_range_map)

text \<open>
  Claim C2. Whenever \<^verbatim>\<open>usalex_apply_period\<close> returns normally, the five arrays it stores
  (filtered times, donor emission, acceptor emission, donor excitation, acceptor
  excitation) have one length, and the number of true entries of the donor-emission mask
  plus that of the acceptor-emission mask is that length.
\<close>

theorem usalex_apply_period_postcondition:
  assumes "usalex_apply_period d delete_ph_t = Inr d'"
  shows "\<exists>ph_times d_em a_em d_ex a_ex.
     ph_times_m d' = Some [ph_times] \<and> D_em d' = Some [d_em] \<and> A_em d' = Some [a_em] \<and>
     D_ex d' = Some [d_ex] \<and> A_ex d' = Some [a_ex] \<and>
     length d_em = length ph_times \<and> length a_em = length ph_times \<and>
     length d_ex = length ph_times \<and> length a_ex = length ph_times \<and>
     np_sum d_em + np_sum a_em = length ph_times"
proof -
  obtain r where "det_filter d = Inr r"
    using assms by (cases "det_filter d") (simp_all add: usalex_apply_period_def)
  then obtain det pt where
    pre: "det_t d = Some det" "ph_times_t d = Some pt" "length pt = length det"
    using det_filter_Inr by blast
  define dn where "dn = fst (det_donor_accept d)"
  define ac where "ac = snd (det_donor_accept d)"
  define vp where "vp = surviving (det_donor_accept d) pt det"
  define kept where "kept = filter (\<lambda>z. in_window (alex_period d) (D_ON d) (fst z) \<or>
                                 in_window (alex_period d) (A_ON d) (fst z)) vp"
  have ex: "\<forall>z\<in>set vp. snd z = dn \<or> snd z = ac"
    by (auto simp: vp_def surviving_def dn_def ac_def)
  note eq = usalex_apply_period_eq [OF pre, of delete_ph_t, unfolded Let_def,
      folded vp_def, folded kept_def dn_def ac_def]
  have nb: "\<not> (\<exists>z\<in>set vp. snd z = dn \<and> snd z = ac)"
    using assms eq by (auto split: if_splits)
  have "\<forall>z\<in>set kept. (snd z = dn) \<noteq> (snd z = ac)"
    using ex nb by (auto simp: kept_def)
  then have cnt: "np_sum (map (\<lambda>z. snd z = dn) kept) + np_sum (map (\<lambda>z. snd z = ac) kept)
      = length kept"
    by (simp add: np_sum_map partition_count)
  from assms eq nb cnt show ?thesis
    by (auto split: if_splits)
qed

theorem usalex_apply_period_postcondition_witness:
  "usalex_apply_period alex_example True = Inr alex_example_out \<and>
   ph_times_m alex_example_out = Some [[3000, 1000, 4100]] \<and>
   D_em alex_example_out = Some [[True, False, True]] \<and>
   A_em alex_example_out = Some [[False, True, False]] \<and>
   np_sum [True, False, True] + np_sum [False, True, False] = length [3000, 1000, 4100 :: int]"
proof -
  have r: "usalex_apply_period alex_example True = Inr alex_example_out"
    by (rule alex_example_run)
  from usalex_apply_period_postcondition [OF r] r show ?thesis
    by (auto simp: alex_example_out_def)
qed

text \<open>
  Claim C4, amended. On a dataset that holds both raw arrays, of one length, and whose two
  detector ids are distinct, \<^verbatim>\<open>usalex_apply_period\<close> fails with the assertion of line 118
  iff some photon that survives the detector filter is classified inside both the donor
  and the acceptor window; it fails in no other way, so with windows that no surviving
  timestamp satisfies together it returns normally. A failure is the result itself:
  nothing is repaired and no data is returned.
\<close>

theorem usalex_overlap_fault:
  assumes "det_t d = Some det" "ph_times_t d = Some pt" "length pt = length det"
    and "fst (det_donor_accept d) \<noteq> snd (det_donor_accept d)"
  shows "(usalex_apply_period d delete_ph_t = Inl (AssertionError ExcitationOverlap) \<longleftrightarrow>
          (\<exists>i<length pt. (det ! i = fst (det_donor_accept d) \<or> det ! i = snd (det_donor_accept d)) \<and>
              select_range pt (alex_period d) (D_ON d) ! i \<and>
              select_range pt (alex_period d) (A_ON d) ! i)) \<and>
         ((\<exists>e. usalex_apply_period d delete_ph_t = Inl e) \<longleftrightarrow>
          (\<exists>i<length pt. (det ! i = fst (det_donor_accept d) \<or> det ! i = snd (det_donor_accept d)) \<and>
              select_range pt (alex_period d) (D_ON d) ! i \<and>
              select_range pt (alex_period d) (A_ON d) ! i))"
proof -
  define vp where "vp = surviving (det_donor_accept d) pt det"
  define ov where "ov \<longleftrightarrow> (\<exists>z\<in>set vp. in_window (alex_period d) (D_ON d) (fst z) \<and>
                          in_window (alex_period d) (A_ON d) (fst z))"
  have ov_eq: "ov \<longleftrightarrow>
      (\<exists>i<length pt. (det ! i = fst (det_donor_accept d) \<or> det ! i = snd (det_donor_accept d)) \<and>
              select_range pt (alex_period d) (D_ON d) ! i \<and>
              select_range pt (alex_period d) (A_ON d) ! i)"
    unfolding ov_def vp_def
    using set_surviving [OF assms(3), of "det_donor_accept d"
        "\<lambda>t c. in_window (alex_period d) (D_ON d) t \<and> in_window (alex_period d) (A_ON d) t"]
    by (auto simp: nth_select_range_in_window)
  have nb: "\<not> (\<exists>z\<in>set vp. snd z = fst (det_donor_accept d) \<and> snd z = snd (det_donor_accept d))"
    using assms(4) by auto
  note eq = usalex_apply_period_eq [OF assms(1-3), of delete_ph_t, unfolded Let_def,
      folded vp_def, folded ov_def]
  have "usalex_apply_period d delete_ph_t = Inl (AssertionError ExcitationOverlap) \<longleftrightarrow> ov"
    using nb by (auto simp: eq)
  moreover have "(\<exists>e. usalex_apply_period d delete_ph_t = Inl e) \<longleftrightarrow> ov"
    using nb by (auto simp: eq)
  ultimately show ?thesis
    unfolding ov_eq by blast
qed

theorem usalex_overlap_fault_witness:
  "det_t alex_example = Some [0, 1, 2, 1, 0] \<and>
   ph_times_t alex_example = Some [3000, 1000, 3100, 700, 4100] \<and>
   length [3000, 1000, 3100, 700, 4100 :: int] = length [0, 1, 2, 1, 0 :: int] \<and>
   fst (det_donor_accept alex_example) \<noteq> snd (det_donor_accept alex_example) \<and>
   usalex_apply_period alex_example True \<noteq> Inl (AssertionError ExcitationOverlap) \<and>
   \<not> (\<exists>i<5. ([0, 1, 2, 1, 0 :: int] ! i = 0 \<or> [0, 1, 2, 1, 0 :: int] ! i = 1) \<and>
        select_range [3000, 1000, 3100, 700, 4100] 4000 (2850, 580) ! i \<and>
        select_range [3000, 1000, 3100, 700, 4100] 4000 (930, 2580) ! i)"
proof -
  have h1: "det_t alex_example = Some [0, 1, 2, 1, 0]"
    and h2: "ph_times_t alex_example = Some [3000, 1000, 3100, 700, 4100]"
    and h3: "length [3000, 1000, 3100, 700, 4100 :: int] = length [0, 1, 2, 1, 0 :: int]"
    and h4: "fst (det_donor_accept alex_example) \<noteq> snd (det_donor_accept alex_example)"
    by (simp_all add: alex_example_def)
  have r: "usalex_apply_period alex_example True \<noteq> Inl (AssertionError ExcitationOverlap)"
    by (simp add: alex_example_run)
  from usalex_overlap_fault [OF h1 h2 h3 h4, of True] r h1 h2 h3 h4 show ?thesis
    by (simp add: alex_example_def)
qed

text \<open>
  Claim C4 as stated fails when one detector id is configured for both channels: the
  assertion of line 109 fires first. In \<open>alex_same_det\<close> the call aborts with a fatal
  assertion although the only surviving photon is in neither window; in
  \<open>alex_same_det_overlap\<close> the surviving photon is inside both windows and the assertion
  that fires is not the one of line 118.
\<close>

theorem usalex_overlap_fault_counterexample:
  "usalex_apply_period alex_same_det True = Inl (AssertionError EmissionNotExclusive) \<and>
   the (det_t alex_same_det) ! 0 = fst (det_donor_accept alex_same_det) \<and>
   \<not> (select_range (the (ph_times_t alex_same_det)) (alex_period alex_same_det)
         (D_ON alex_same_det) ! 0 \<and>
       select_range (the (ph_times_t alex_same_det)) (alex_period alex_same_det)
         (A_ON alex_same_det) ! 0) \<and>
   usalex_apply_period alex_same_det_overlap True \<noteq> Inl (AssertionError ExcitationOverlap) \<and>
   the (det_t alex_same_det_overlap) ! 0 = fst (det_donor_accept alex_same_det_overlap) \<and>
   select_range (the (ph_times_t alex_same_det_overlap)) (alex_period alex_same_det_overlap)
     (D_ON alex_same_det_overlap) ! 0 \<and>
   select_range (the (ph_times_t alex_same_det_overlap)) (alex_period alex_same_det_overlap)
     (A_ON alex_same_det_overlap) ! 0"
  by (simp add: alex_same_det_run alex_same_det_overlap_run)
     (simp add: alex_same_det_def alex_same_det_overlap_def select_range_def
        select_inner_range_def select_outer_range_def np_mod_def)

text \<open>
  Claim C10. When the two configured detector ids are distinct, the assertions of lines
  108 and 109 never fail: after the detector filter every surviving photon satisfies
  exactly one of the donor-emission and acceptor-emission masks.
\<close>

theorem emission_partition_assertions_hold:
  assumes "fst (det_donor_accept d) \<noteq> snd (det_donor_accept d)"
  shows "usalex_apply_period d delete_ph_t \<noteq> Inl (AssertionError EmissionNotExhaustive) \<and>
         usalex_apply_period d delete_ph_t \<noteq> Inl (AssertionError EmissionNotExclusive) \<and>
         (\<forall>ph_times_val d_ch_mask_val a_ch_mask_val.
            det_filter d = Inr (ph_times_val, d_ch_mask_val, a_ch_mask_val) \<longrightarrow>
              length d_ch_mask_val = length ph_times_val \<and>
              length a_ch_mask_val = length ph_times_val \<and>
              (\<forall>i<length ph_times_val. d_ch_mask_val ! i \<noteq> a_ch_mask_val ! i) \<and>
              np_all (map2 (\<or>) d_ch_mask_val a_ch_mask_val) \<and>
              \<not> np_any (map2 (\<and>) d_ch_mask_val a_ch_mask_val))"
proof (cases "det_filter d")
  case (Inl e)
  then have "usalex_apply_period d delete_ph_t = Inl e"
    by (simp add: usalex_apply_period_def)
  moreover have "e = AttributeError \<or> e = IndexError"
    using Inl by (rule det_filter_Inl)
  ultimately show ?thesis
    using Inl by auto
next
  case (Inr r)
  then obtain det pt where
    pre: "det_t d = Some det" "ph_times_t d = Some pt" "length pt = length det"
    using det_filter_Inr by blast
  define vp where "vp = surviving (det_donor_accept d) pt det"
  have ex: "\<forall>z\<in>set vp. (snd z = fst (det_donor_accept d)) \<noteq> (snd z = snd (det_donor_accept d))"
    using assms by (auto simp: vp_def surviving_def)
  have df: "det_filter d = Inr (map fst vp, map (\<lambda>z. snd z = fst (det_donor_accept d)) vp,
                                map (\<lambda>z. snd z = snd (det_donor_accept d)) vp)"
    using det_filter_eq [OF pre] by (simp add: vp_def case_prod_unfold)
  have a: "usalex_apply_period d delete_ph_t \<noteq> Inl (AssertionError EmissionNotExhaustive)"
    and b: "usalex_apply_period d delete_ph_t \<noteq> Inl (AssertionError EmissionNotExclusive)"
    using assms by (auto simp: usalex_apply_period_eq [OF pre] Let_def)
  have c: "\<forall>i<length vp. (snd (vp ! i) = fst (det_donor_accept d)) \<noteq>
                           (snd (vp ! i) = snd (det_donor_accept d))"
    using ex by simp
  have d: "np_all (map2 (\<or>) (map (\<lambda>z. snd z = fst (det_donor_accept d)) vp)
                             (map (\<lambda>z. snd z = snd (det_donor_accept d)) vp))"
    using ex by (auto simp: map2_map_map np_all_map)
  have e: "\<not> np_any (map2 (\<and>) (map (\<lambda>z. snd z = fst (det_donor_accept d)) vp)
                             (map (\<lambda>z. snd z = snd (det_donor_accept d)) vp))"
    using ex by (auto simp: map2_map_map np_any_map)
  from a b c d e show ?thesis
    unfolding df by simp
qed

theorem emission_partition_assertions_hold_witness:
  "fst (det_donor_accept alex_example) \<noteq> snd (det_donor_accept alex_example) \<and>
   det_filter alex_example =
     Inr ([3000, 1000, 700, 4100], [True, False, False, True], [False, True, True, False]) \<and>
   usalex_apply_period alex_example True \<noteq> Inl (AssertionError EmissionNotExhaustive) \<and>
   usalex_apply_period alex_example True \<noteq> Inl (AssertionError EmissionNotExclusive)"
proof -
  have h: "fst (det_donor_accept alex_example) \<noteq> snd (det_donor_accept alex_example)"
    by (simp add: alex_example_def)
  have f: "det_filter alex_example =
     Inr ([3000, 1000, 700, 4100], [True, False, False, True], [False, True, True, False])"
    by (simp add: alex_example_def det_filter_def attr_def np_mask_index_def Let_def)
  from emission_partition_assertions_hold [OF h, of True] h f show ?thesis
    by simp
qed

subsection \<open>Selection on the period\<close>

text \<open>
  Claim C3 (empty-channel policy). On a channel without bursts \<^verbatim>\<open>period\<close> with its default
  \<^verbatim>\<open>bp2=None\<close> takes the maximum of an empty array and raises \<^verbatim>\<open>ValueError\<close>, where
  the claim asks for an empty mask; with an explicit \<^verbatim>\<open>bp2\<close> the same selector returns
  the empty mask.
\<close>

theorem period_empty_channel_raises:
  "period empty_channel 0 0 None = Inl ValueError \<and>
   period empty_channel 0 0 (Some 5) = Inr ([], [])"
  by (simp add: period_def empty_channel_def py_get_def np_max_def np_binop_def)

subsection \<open>Selection of isolated bursts\<close>


text \<open>
  On a channel without bursts \<^verbatim>\<open>np.hstack\<close> still appends one entry to the empty gap
  mask, so the mask of \<^verbatim>\<open>single\<close> has one entry, which is false.
\<close>

lemma single_empty_channel: "single empty_channel 0 1 = Inr [False]"
  by (simp add: single_def empty_channel_def py_get_def b_start_def b_end_def)





subsection \<open>Selection on the burst size\<close>

lemma np_binop_same: "length xs = length ys \<Longrightarrow> np_binop f xs ys = Inr (map2 f xs ys)"
  by (simp add: np_binop_def)

lemma np_binop_scalar: "np_binop f xs [v] = Inr (map (\<lambda>x. f x v) xs)"
proof (cases xs)
  case Nil
  then show ?thesis by (simp add: np_binop_def)
next
  case (Cons x xs')
  then show ?thesis by (cases xs') (simp_all add: np_binop_def)
qed

lemma fold_update_length:
  "length (fold (\<lambda>i m. m[i := True]) idx m) = length m"
  by (induction idx arbitrary: m) simp_all

lemma fold_update_nth:
  "j < length m \<Longrightarrow> fold (\<lambda>i m. m[i := True]) idx m ! j \<longleftrightarrow> m ! j \<or> j \<in> set idx"
proof (induction idx arbitrary: m)
  case Nil
  then show ?case by simp
next
  case (Cons a idx)
  have "fold (\<lambda>i m. m[i := True]) (a # idx) m ! j
      \<longleftrightarrow> (m[a := True]) ! j \<or> j \<in> set idx"
    using Cons.IH [of "m[a := True]"] Cons.prems by simp
  also have "(m[a := True]) ! j \<longleftrightarrow> m ! j \<or> j = a"
    using Cons.prems by (cases "j = a") simp_all
  finally show ?case by auto
qed

lemma set_argsort: "set (argsort xs) = {0..<length xs}"
  by (simp add: argsort_def)

lemma fold_update_all:
  "fold (\<lambda>i m. m[i := True]) (argsort bs) (replicate (length bs) False) =
     replicate (length bs) True"
  by (rule nth_equalityI) (simp_all add: fold_update_length fold_update_nth set_argsort)

lemma burst_size_length:
  assumes "py_get (nd d) ich = Inr n" "py_get (na d) ich = Inr a" "length n = length a"
  shows "\<exists>bs. burst_size d ich gamma gamma1 = Inr bs \<and> length bs = length n"
  using assms by (cases gamma1) (simp_all add: burst_size_def np_binop_same)

lemma topN_example_run:
  "topN_nda bursts_example 0 0 1 None = Inr [True, True, True] \<and>
   topN_nda bursts_example 0 1 1 None = Inr [False, True, False]"
  by (simp add: topN_nda_def burst_size_def bursts_example_def py_get_def np_binop_def
      py_slice_from_def argsort_def upt_rec [of 0] upt_rec [of 1] upt_rec [of 2] upt_rec [of 3])

text \<open>
  Claim C9. For a channel that is not empty, \<^verbatim>\<open>topN_nda\<close> with \<open>N = 0\<close> returns the mask
  that is true everywhere, not the one that is false everywhere: \<^verbatim>\<open>index_sorted[-0:]\<close> is
  the whole index array.
\<close>

theorem topN_nda_zero_selects_all:
  assumes "py_get (nd d) ich = Inr n" "py_get (na d) ich = Inr a" "length n = length a"
    and "n \<noteq> []"
  shows "topN_nda d ich 0 gamma gamma1 = Inr (replicate (length n) True) \<and>
         replicate (length n) True \<noteq> replicate (length n) False"
proof -
  obtain bs where bs: "burst_size d ich gamma gamma1 = Inr bs" "length bs = length n"
    using burst_size_length [OF assms(1-3)] by blast
  have "topN_nda d ich 0 gamma gamma1 = Inr (replicate (length bs) True)"
    by (simp add: topN_nda_def bs(1) py_slice_from_def fold_update_all)
  moreover have "replicate (length n) True \<noteq> replicate (length n) False"
    using assms(4) by (cases n) simp_all
  ultimately show ?thesis
    by (simp add: bs(2))
qed

theorem topN_nda_zero_selects_all_witness:
  "py_get (nd bursts_example) 0 = Inr [0, 10, 3] \<and>
   py_get (na bursts_example) 0 = Inr [0, 10, 5] \<and>
   length [0, 10, 3 :: real] = length [0, 10, 5 :: real] \<and> [0, 10, 3 :: real] \<noteq> [] \<and>
   topN_nda bursts_example 0 0 1 None = Inr [True, True, True]"
proof -
  have h1: "py_get (nd bursts_example) 0 = Inr [0, 10, 3]"
    and h2: "py_get (na bursts_example) 0 = Inr [0, 10, 5]"
    by (simp_all add: bursts_example_def py_get_def)
  have h3: "length [0, 10, 3 :: real] = length [0, 10, 5 :: real]"
    and h4: "[0, 10, 3 :: real] \<noteq> []"
    by simp_all
  from topN_nda_zero_selects_all [OF h1 h2 h3 h4, of 1 None] h1 h2 show ?thesis
    by (simp add: numeral_3_eq_3)
qed

lemma resolve_th_Scalar: "resolve_th n ich (Scalar v) = Inr (Scalar v)"
  by (cases "n = 1") (simp_all add: resolve_th_def)

lemma bindE_assoc: "bindE (bindE m f) g = bindE m (\<lambda>x. bindE (f x) g)"
  by (cases m) simp_all

lemma nda_scalar:
  "nda d ich (Scalar t1) (Scalar t2) gamma gamma1 add_naa =
     bindE (bindE (burst_size d ich gamma gamma1) (\<lambda>bs.
       if ALEX d \<and> add_naa then bindE (py_get (naa d) ich) (np_iadd bs) else Inr bs))
       (\<lambda>bs. Inr (map (\<lambda>b. b \<ge> t1 \<and> b \<le> t2) bs))"
proof -
  have rest: "bindE (resolve_th (nch d) ich (Scalar t1)) (\<lambda>th1.
     bindE (resolve_th (nch d) ich (Scalar t2)) (\<lambda>th2.
     bindE (np_binop (\<ge>) bs (th_values th1)) (\<lambda>m1.
     bindE (np_binop (\<le>) bs (th_values th2)) (\<lambda>m2.
     bindE (np_binop (\<and>) m1 m2) (\<lambda>bursts_mask.
     if np_size th1 \<noteq> 1 then Inl TypeError
     else if np_size th2 \<noteq> 1 then Inl ValueError
     else Inr bursts_mask))))) = Inr (map (\<lambda>b. b \<ge> t1 \<and> b \<le> t2) bs)" for bs :: "real list"
    by (simp add: resolve_th_Scalar np_binop_scalar np_binop_same map2_map_map)
  show ?thesis
    unfolding nda_def rest bindE_assoc ..
qed

lemma count_mono:
  assumes "\<And>x. P x \<Longrightarrow> Q x"
  shows "np_sum (map P xs) \<le> np_sum (map Q xs)"
  using assms by (induction xs) (auto simp: np_sum_def)

lemma nda_example_run:
  "nda bursts_example 0 (Scalar 5) (Scalar 1000) 1 None False = Inr [False, True, True]"
  "nda bursts_example 0 (Scalar 10) (Scalar 1000) 1 None False = Inr [False, True, False]"
  "nda bursts_example 0 (Scalar 5) (Scalar 10) 1 None False = Inr [False, False, True]"
  by (simp_all add: nda_def burst_size_def resolve_th_def bursts_example_def py_get_def
      np_binop_def)

text \<open>
  Claim C7. For a fixed dataset, channel and \<^verbatim>\<open>gamma\<close> settings, the number of true entries
  of the mask of \<^verbatim>\<open>nda\<close> does not increase when \<open>th1\<close> increases with \<open>th2\<close> fixed, and does
  not decrease when \<open>th2\<close> increases with \<open>th1\<close> fixed; the call with the other threshold
  returns whenever the first one does.
\<close>

theorem nda_monotone:
  assumes "nda d ich (Scalar th1) (Scalar th2) gamma gamma1 add_naa = Inr m"
  shows "(th1 \<le> th1' \<longrightarrow>
            (\<exists>m'. nda d ich (Scalar th1') (Scalar th2) gamma gamma1 add_naa = Inr m' \<and>
                  length m' = length m \<and> np_sum m' \<le> np_sum m)) \<and>
         (th2 \<le> th2' \<longrightarrow>
            (\<exists>m'. nda d ich (Scalar th1) (Scalar th2') gamma gamma1 add_naa = Inr m' \<and>
                  length m' = length m \<and> np_sum m \<le> np_sum m'))"
proof -
  define sz where "sz = bindE (burst_size d ich gamma gamma1) (\<lambda>bs.
       if ALEX d \<and> add_naa then bindE (py_get (naa d) ich) (np_iadd bs) else Inr bs)"
  have eq: "nda d ich (Scalar t1) (Scalar t2) gamma gamma1 add_naa =
      bindE sz (\<lambda>bs. Inr (map (\<lambda>b. b \<ge> t1 \<and> b \<le> t2) bs))" for t1 t2
    unfolding sz_def by (rule nda_scalar)
  obtain bs where bs: "sz = Inr bs"
    using assms unfolding eq by (cases sz) simp_all
  have m: "m = map (\<lambda>b. b \<ge> th1 \<and> b \<le> th2) bs"
    using assms unfolding eq bs by simp
  have a: "np_sum (map (\<lambda>b. b \<ge> th1' \<and> b \<le> th2) bs) \<le> np_sum m" if "th1 \<le> th1'"
    unfolding m using that by (intro count_mono) simp
  have b: "np_sum m \<le> np_sum (map (\<lambda>b. b \<ge> th1 \<and> b \<le> th2') bs)" if "th2 \<le> th2'"
    unfolding m using that by (intro count_mono) simp
  show ?thesis
    using a b by (simp add: eq bs m)
qed

theorem nda_monotone_witness:
  "nda bursts_example 0 (Scalar 5) (Scalar 10) 1 None False = Inr [False, False, True] \<and>
   (5::real) \<le> 10 \<and> (10::real) \<le> 1000 \<and>
   nda bursts_example 0 (Scalar 10) (Scalar 10) 1 None False = Inr [False, False, False] \<and>
   nda bursts_example 0 (Scalar 5) (Scalar 1000) 1 None False = Inr [False, True, True] \<and>
   np_sum [False, False, False] \<le> np_sum [False, False, True] \<and>
   np_sum [False, False, True] \<le> np_sum [False, True, True]"
proof -
  have r: "nda bursts_example 0 (Scalar 5) (Scalar 10) 1 None False = Inr [False, False, True]"
    by (rule nda_example_run)
  have r1: "nda bursts_example 0 (Scalar 10) (Scalar 10) 1 None False = Inr [False, False, False]"
    by (simp add: nda_def burst_size_def resolve_th_def bursts_example_def py_get_def
      np_binop_def)
  from nda_monotone [OF r, of 10 1000] r r1 show ?thesis
    by (simp add: nda_example_run)
qed

subsection \<open>Selection on the burst size against the background\<close>











end
